theory Spec2Isabelle
  imports Main "HOL-Library.Sublist"
begin

section \<open>Data model (errors.go, the model file, ports.go)\<close>

text \<open>
  The sentinel errors of errors.go, the one library sentinel the parser can meet
  (bufio.ErrTooLong), an error value produced by a collaborator (\<open>External\<close>), and one
  constructor for each shape of \<open>fmt.Errorf\<close> the package uses. The constructor keeps
  the format's text and its arguments apart, so no integer is printed into a string.
\<close>

datatype err =
    ErrNoMigrations
  | ErrInvalidVersion
  | ErrMigrationNotFound
  | ErrNoUpStatement
  | ErrNoDownStatement
  | ErrInvalidConfig
  | ErrDatabaseConnection
  | ErrTransactionFailed
  | ErrTooLong
  | External string
  | Errorf_w string err          \<comment> \<open>\<open>"<text>: %w"\<close>\<close>
  | Errorf_dw string int err     \<comment> \<open>\<open>"<text> %d: %w"\<close>\<close>
  | Errorf_sw string string err  \<comment> \<open>\<open>"<text> %s: %w"\<close>\<close>
  | Errorf_wd err int            \<comment> \<open>\<open>"%w: version %d"\<close>\<close>
  | Errorf_wv err err            \<comment> \<open>\<open>"%w: %v"\<close>\<close>
  | Errorf_ws err string         \<comment> \<open>\<open>"%w: <text>"\<close>\<close>

text \<open>\<open>errors.Is\<close>: follow the \<open>%w\<close> chain.\<close>

fun errors_Is :: "err \<Rightarrow> err \<Rightarrow> bool" where
  "errors_Is (Errorf_w t e) target = (Errorf_w t e = target \<or> errors_Is e target)"
| "errors_Is (Errorf_dw t d e) target = (Errorf_dw t d e = target \<or> errors_Is e target)"
| "errors_Is (Errorf_sw t s e) target = (Errorf_sw t s e = target \<or> errors_Is e target)"
| "errors_Is (Errorf_wd e d) target = (Errorf_wd e d = target \<or> errors_Is e target)"
| "errors_Is (Errorf_wv e v) target = (Errorf_wv e v = target \<or> errors_Is e target)"
| "errors_Is (Errorf_ws e t) target = (Errorf_ws e t = target \<or> errors_Is e target)"
| "errors_Is e target = (e = target)"

text \<open>
  The three structs of the model file. Go's \<open>int\<close> is 64 bits wide; the orchestrator
  only compares versions, so they are \<open>int\<close> here and the one place that can overflow
  (\<open>strconv.Atoi\<close> in the parser) checks the range. A \<open>time.Time\<close> is a point on an
  abstract clock (\<open>nat\<close>); the nullable \<open>*time.Time\<close> is an option.
\<close>

record Migration =
  Version :: int
  Name :: string
  UpSQL :: string
  DownSQL :: string
  Checksum :: string

record MigrationRecord =
  rVersion :: int
  rName :: string
  rAppliedAt :: nat
  rChecksum :: string

record MigrationStatus =
  sVersion :: int
  sName :: string
  Applied :: bool
  sAppliedAt :: "nat option"
  sChecksum :: string

text \<open>
  The Storage interface of ports.go, over the state \<open>'s\<close> of whatever stands behind
  it. Every method returns its error (or value) together with the state it leaves.
\<close>

record 's Storage =
  Init :: "'s \<Rightarrow> err option \<times> 's"
  GetAppliedMigrations :: "'s \<Rightarrow> (err + MigrationRecord list) \<times> 's"
  RecordMigration :: "Migration \<Rightarrow> 's \<Rightarrow> err option \<times> 's"
  RemoveMigration :: "int \<Rightarrow> 's \<Rightarrow> err option \<times> 's"
  GetCurrentVersion :: "'s \<Rightarrow> (err + int) \<times> 's"

text \<open>
  The migrator struct. The driver is the external database driver: \<open>None\<close> is the nil
  handle, \<open>Some run\<close> a driver whose transaction runs one statement with \<open>run\<close>
  (\<open>tx.Run\<close>). The parser, the database name and the logger handle carry no behaviour
  the operations branch on; what the logger is told is kept in the trace below.
\<close>

record 's migrator =
  driver :: "(string \<Rightarrow> 's \<Rightarrow> err option \<times> 's) option"
  storage :: "'s Storage"
  migrations :: "Migration list"

subsection \<open>The observable trace\<close>

datatype level = Debug | Info | Warn | Error

datatype logargs = NoArgs | VersionName int string | Statement string

text \<open>
  Every call the orchestrator makes on a collaborator is written to a trace, in the
  order the calls happen: the five storage methods, \<open>tx.Run\<close> of one statement, a
  logger call, and the orchestrator's own \<open>executeMigration\<close> (the point where a
  script is handed over for execution).
\<close>

datatype call =
    CInit
  | CGetApplied
  | CRecord Migration
  | CRemove int
  | CGetVersion
  | CExecute string
  | CRun string
  | CLog level string logargs

record 's world =
  store :: 's
  trace :: "call list"

definition emit :: "call \<Rightarrow> 's world \<Rightarrow> 's world" where
  "emit c w = w\<lparr>trace := trace w @ [c]\<rparr>"

definition logger :: "level \<Rightarrow> string \<Rightarrow> logargs \<Rightarrow> 's world \<Rightarrow> 's world" where
  "logger l msg args w = emit (CLog l msg args) w"

definition storage_Init :: "'s migrator \<Rightarrow> 's world \<Rightarrow> err option \<times> 's world" where
  "storage_Init M w =
     (case Init (storage M) (store w) of (r, s) \<Rightarrow> (r, emit CInit (w\<lparr>store := s\<rparr>)))"

definition storage_GetAppliedMigrations ::
  "'s migrator \<Rightarrow> 's world \<Rightarrow> (err + MigrationRecord list) \<times> 's world" where
  "storage_GetAppliedMigrations M w =
     (case GetAppliedMigrations (storage M) (store w) of
        (r, s) \<Rightarrow> (r, emit CGetApplied (w\<lparr>store := s\<rparr>)))"

definition storage_RecordMigration ::
  "'s migrator \<Rightarrow> Migration \<Rightarrow> 's world \<Rightarrow> err option \<times> 's world" where
  "storage_RecordMigration M mg w =
     (case RecordMigration (storage M) mg (store w) of
        (r, s) \<Rightarrow> (r, emit (CRecord mg) (w\<lparr>store := s\<rparr>)))"

definition storage_RemoveMigration ::
  "'s migrator \<Rightarrow> int \<Rightarrow> 's world \<Rightarrow> err option \<times> 's world" where
  "storage_RemoveMigration M v w =
     (case RemoveMigration (storage M) v (store w) of
        (r, s) \<Rightarrow> (r, emit (CRemove v) (w\<lparr>store := s\<rparr>)))"

definition storage_GetCurrentVersion ::
  "'s migrator \<Rightarrow> 's world \<Rightarrow> (err + int) \<times> 's world" where
  "storage_GetCurrentVersion M w =
     (case GetCurrentVersion (storage M) (store w) of
        (r, s) \<Rightarrow> (r, emit CGetVersion (w\<lparr>store := s\<rparr>)))"

text \<open>What a trace says was executed, run, recorded and removed.\<close>

definition executed :: "call list \<Rightarrow> string list" where
  "executed tr = concat (map (\<lambda>c. case c of CExecute q \<Rightarrow> [q] | _ \<Rightarrow> []) tr)"

definition ran :: "call list \<Rightarrow> string list" where
  "ran tr = concat (map (\<lambda>c. case c of CRun q \<Rightarrow> [q] | _ \<Rightarrow> []) tr)"

definition recorded :: "call list \<Rightarrow> Migration list" where
  "recorded tr = concat (map (\<lambda>c. case c of CRecord mg \<Rightarrow> [mg] | _ \<Rightarrow> []) tr)"

definition removed :: "call list \<Rightarrow> int list" where
  "removed tr = concat (map (\<lambda>c. case c of CRemove v \<Rightarrow> [v] | _ \<Rightarrow> []) tr)"

text \<open>The storage calls of a trace, whatever their arguments.\<close>

definition storage_calls :: "call list \<Rightarrow> call list" where
  "storage_calls tr =
     filter (\<lambda>c. case c of CInit \<Rightarrow> True | CGetApplied \<Rightarrow> True | CRecord mg \<Rightarrow> True
                 | CRemove v \<Rightarrow> True | CGetVersion \<Rightarrow> True | _ \<Rightarrow> False) tr"

section \<open>Script execution (migrator.go, executeMigration and splitStatements)\<close>

text \<open>
  \<open>strings.TrimSpace\<close> on the bytes of a string: the six ASCII white-space bytes are
  trimmed. The multi-byte encodings of the other Unicode spaces, which Go trims as
  well, are not white space here.
\<close>

definition isSpace :: "char \<Rightarrow> bool" where
  "isSpace c = (c = CHR 0x09 \<or> c = CHR 0x0A \<or> c = CHR 0x0B \<or> c = CHR 0x0C
              \<or> c = CHR 0x0D \<or> c = CHR '' '')"

definition TrimSpace :: "string \<Rightarrow> string" where
  "TrimSpace s = rev (dropWhile isSpace (rev (dropWhile isSpace s)))"

text \<open>\<open>strings.Split(s, sep)\<close> for a one-byte separator: one more piece than separators.\<close>

fun Split :: "char \<Rightarrow> string \<Rightarrow> string list" where
  "Split c [] = [[]]"
| "Split c (x # xs) =
     (if x = c then [] # Split c xs
      else (case Split c xs of [] \<Rightarrow> [[x]] | p # ps \<Rightarrow> (x # p) # ps))"

definition splitStatements :: "string \<Rightarrow> string list" where
  "splitStatements sql = Split CHR '';'' sql"

text \<open>
  The closure handed to \<open>session.ExecuteWrite\<close>: empty statements are skipped, the
  first failing statement ends the loop with the wrapped error. The transaction itself
  is the driver's: what it undoes on a failure is part of what \<open>run\<close> leaves behind,
  and a failure to commit or a retry of the closure by the driver is not modelled.
\<close>

fun runStatements ::
  "(string \<Rightarrow> 's \<Rightarrow> err option \<times> 's) \<Rightarrow> string list \<Rightarrow> 's world \<Rightarrow> err option \<times> 's world"
where
  "runStatements run [] w = (None, w)"
| "runStatements run (stmt # rest) w =
     (let s = TrimSpace stmt in
      if s = [] then runStatements run rest w
      else
        (let w1 = logger Debug ''executing statement'' (Statement s) w in
         case run s (store w1) of
           (Some e, st) \<Rightarrow>
             (Some (Errorf_wv ErrTransactionFailed e), emit (CRun s) (w1\<lparr>store := st\<rparr>))
         | (None, st) \<Rightarrow> runStatements run rest (emit (CRun s) (w1\<lparr>store := st\<rparr>))))"

definition executeMigration ::
  "'s migrator \<Rightarrow> string \<Rightarrow> 's world \<Rightarrow> err option \<times> 's world" where
  "executeMigration M sql w =
     (let w0 = emit (CExecute sql) w in
      case driver M of
        None \<Rightarrow> (None, w0)
      | Some run \<Rightarrow> runStatements run (splitStatements sql) w0)"

section \<open>The orchestrator (migrator.go)\<close>

text \<open>
  \<open>appliedVersions\<close> is a Go \<open>map[int]bool\<close>, read with the zero value \<open>false\<close> for a
  missing key; \<open>appliedMap\<close> is a \<open>map[int]MigrationRecord\<close> read with the comma-ok
  form. Both are filled in the order of the slice, a later record replacing an earlier
  one of the same version.
\<close>

definition appliedVersions :: "MigrationRecord list \<Rightarrow> int \<Rightarrow> bool" where
  "appliedVersions applied = foldl (\<lambda>av r. av(rVersion r := True)) (\<lambda>v. False) applied"

definition appliedMap :: "MigrationRecord list \<Rightarrow> int \<rightharpoonup> MigrationRecord" where
  "appliedMap applied = foldl (\<lambda>am r. am(rVersion r \<mapsto> r)) Map.empty applied"

text \<open>The body shared by the loops of Up and UpTo for one unapplied migration.\<close>

fun Up_loop ::
  "'s migrator \<Rightarrow> (int \<Rightarrow> bool) \<Rightarrow> Migration list \<Rightarrow> 's world \<Rightarrow> err option \<times> 's world"
where
  "Up_loop M av [] w = (None, w)"
| "Up_loop M av (mg # rest) w =
     (if av (Version mg) then
        Up_loop M av rest
          (logger Debug ''skipping already applied migration''
             (VersionName (Version mg) (Name mg)) w)
      else
        (case executeMigration M (UpSQL mg)
                (logger Info ''applying migration'' (VersionName (Version mg) (Name mg)) w) of
           (Some e, w2) \<Rightarrow> (Some (Errorf_dw ''failed to apply migration'' (Version mg) e), w2)
         | (None, w2) \<Rightarrow>
             (case storage_RecordMigration M mg w2 of
                (Some e, w3) \<Rightarrow>
                  (Some (Errorf_dw ''failed to record migration'' (Version mg) e), w3)
              | (None, w3) \<Rightarrow>
                  Up_loop M av rest
                    (logger Info ''successfully applied migration''
                       (VersionName (Version mg) (Name mg)) w3))))"

definition Up :: "'s migrator \<Rightarrow> 's world \<Rightarrow> err option \<times> 's world" where
  "Up M w =
     (case storage_Init M w of
        (Some e, w1) \<Rightarrow> (Some e, w1)
      | (None, w1) \<Rightarrow>
          (case storage_GetAppliedMigrations M w1 of
             (Inl e, w2) \<Rightarrow> (Some e, w2)
           | (Inr applied, w2) \<Rightarrow> Up_loop M (appliedVersions applied) (migrations M) w2))"

fun UpTo_loop ::
  "'s migrator \<Rightarrow> int \<Rightarrow> (int \<Rightarrow> bool) \<Rightarrow> Migration list \<Rightarrow> 's world
     \<Rightarrow> err option \<times> 's world"
where
  "UpTo_loop M targetVersion av [] w = (None, w)"
| "UpTo_loop M targetVersion av (mg # rest) w =
     (if Version mg > targetVersion then (None, w)
      else if av (Version mg) then
        UpTo_loop M targetVersion av rest
          (logger Debug ''skipping already applied migration''
             (VersionName (Version mg) (Name mg)) w)
      else
        (case executeMigration M (UpSQL mg)
                (logger Info ''applying migration'' (VersionName (Version mg) (Name mg)) w) of
           (Some e, w2) \<Rightarrow> (Some (Errorf_dw ''failed to apply migration'' (Version mg) e), w2)
         | (None, w2) \<Rightarrow>
             (case storage_RecordMigration M mg w2 of
                (Some e, w3) \<Rightarrow>
                  (Some (Errorf_dw ''failed to record migration'' (Version mg) e), w3)
              | (None, w3) \<Rightarrow>
                  UpTo_loop M targetVersion av rest
                    (logger Info ''successfully applied migration''
                       (VersionName (Version mg) (Name mg)) w3))))"

definition UpTo :: "'s migrator \<Rightarrow> int \<Rightarrow> 's world \<Rightarrow> err option \<times> 's world" where
  "UpTo M targetVersion w =
     (case storage_Init M w of
        (Some e, w1) \<Rightarrow> (Some e, w1)
      | (None, w1) \<Rightarrow>
          if targetVersion < 0 then (Some ErrInvalidVersion, w1)
          else
            (case storage_GetAppliedMigrations M w1 of
               (Inl e, w2) \<Rightarrow> (Some e, w2)
             | (Inr applied, w2) \<Rightarrow>
                 UpTo_loop M targetVersion (appliedVersions applied) (migrations M) w2))"

text \<open>
  The rollback of one located migration, as Down and the body of DownTo's loop do it:
  the reverse script, then the removal of the record.
\<close>

definition rollback ::
  "'s migrator \<Rightarrow> Migration \<Rightarrow> 's world \<Rightarrow> err option \<times> 's world" where
  "rollback M target w =
     (case executeMigration M (DownSQL target)
             (logger Info ''rolling back migration''
                (VersionName (Version target) (Name target)) w) of
        (Some e, w2) \<Rightarrow>
          (Some (Errorf_dw ''failed to rollback migration'' (Version target) e), w2)
      | (None, w2) \<Rightarrow>
          (case storage_RemoveMigration M (Version target) w2 of
             (Some e, w3) \<Rightarrow>
               (Some (Errorf_dw ''failed to remove migration record'' (Version target) e), w3)
           | (None, w3) \<Rightarrow>
               (None, logger Info ''successfully rolled back migration''
                        (VersionName (Version target) (Name target)) w3)))"

definition Down :: "'s migrator \<Rightarrow> 's world \<Rightarrow> err option \<times> 's world" where
  "Down M w =
     (case storage_Init M w of
        (Some e, w1) \<Rightarrow> (Some e, w1)
      | (None, w1) \<Rightarrow>
          (case storage_GetCurrentVersion M w1 of
             (Inl e, w2) \<Rightarrow> (Some e, w2)
           | (Inr currentVersion, w2) \<Rightarrow>
               if currentVersion = 0 then
                 (None, logger Info ''no migrations to rollback'' NoArgs w2)
               else
                 (case find (\<lambda>mg. Version mg = currentVersion) (migrations M) of
                    None \<Rightarrow> (Some (Errorf_wd ErrMigrationNotFound currentVersion), w2)
                  | Some target \<Rightarrow> rollback M target w2)))"

text \<open>
  DownTo's loop runs the index from \<open>len(applied) - 1\<close> down to \<open>0\<close>: it is a recursion
  over the reversed slice.
\<close>

fun DownTo_loop ::
  "'s migrator \<Rightarrow> int \<Rightarrow> MigrationRecord list \<Rightarrow> 's world \<Rightarrow> err option \<times> 's world"
where
  "DownTo_loop M targetVersion [] w = (None, w)"
| "DownTo_loop M targetVersion (record # rest) w =
     (if rVersion record \<le> targetVersion then (None, w)
      else
        (case find (\<lambda>mg. Version mg = rVersion record) (migrations M) of
           None \<Rightarrow> (Some (Errorf_wd ErrMigrationNotFound (rVersion record)), w)
         | Some target \<Rightarrow>
             (case rollback M target w of
                (Some e, w1) \<Rightarrow> (Some e, w1)
              | (None, w1) \<Rightarrow> DownTo_loop M targetVersion rest w1)))"

definition DownTo :: "'s migrator \<Rightarrow> int \<Rightarrow> 's world \<Rightarrow> err option \<times> 's world" where
  "DownTo M targetVersion w =
     (case storage_Init M w of
        (Some e, w1) \<Rightarrow> (Some e, w1)
      | (None, w1) \<Rightarrow>
          if targetVersion < 0 then (Some ErrInvalidVersion, w1)
          else
            (case storage_GetAppliedMigrations M w1 of
               (Inl e, w2) \<Rightarrow> (Some e, w2)
             | (Inr applied, w2) \<Rightarrow> DownTo_loop M targetVersion (rev applied) w2))"

fun Status_loop ::
  "(int \<rightharpoonup> MigrationRecord) \<Rightarrow> Migration list \<Rightarrow> MigrationStatus list \<Rightarrow> 's world
     \<Rightarrow> MigrationStatus list \<times> 's world"
where
  "Status_loop am [] statuses w = (statuses, w)"
| "Status_loop am (mg # rest) statuses w =
     (let status = \<lparr>sVersion = Version mg, sName = Name mg, Applied = False,
                     sAppliedAt = None, sChecksum = Checksum mg\<rparr> in
      case am (Version mg) of
        None \<Rightarrow> Status_loop am rest (statuses @ [status]) w
      | Some record \<Rightarrow>
          Status_loop am rest
            (statuses @ [status\<lparr>Applied := True, sAppliedAt := Some (rAppliedAt record)\<rparr>])
            (if rChecksum record \<noteq> Checksum mg then
               logger Warn ''checksum mismatch'' (VersionName (Version mg) (Name mg)) w
             else w))"

definition Status ::
  "'s migrator \<Rightarrow> 's world \<Rightarrow> (err + MigrationStatus list) \<times> 's world" where
  "Status M w =
     (case storage_Init M w of
        (Some e, w1) \<Rightarrow> (Inl e, w1)
      | (None, w1) \<Rightarrow>
          (case storage_GetAppliedMigrations M w1 of
             (Inl e, w2) \<Rightarrow> (Inl e, w2)
           | (Inr applied, w2) \<Rightarrow>
               (case Status_loop (appliedMap applied) (migrations M) [] w2 of
                  (statuses, w3) \<Rightarrow> (Inr statuses, w3))))"

definition Version_op :: "'s migrator \<Rightarrow> 's world \<Rightarrow> (err + int) \<times> 's world" where
  "Version_op M w =
     (case storage_Init M w of
        (Some e, w1) \<Rightarrow> (Inl e, w1)
      | (None, w1) \<Rightarrow> storage_GetCurrentVersion M w1)"

section \<open>Configuration (migrate.go, validateConfig)\<close>

text \<open>
  The Config struct. \<open>MigrationsFS\<close> is an interface value: \<open>None\<close> is nil. The Logger
  field is not read by the validation and is left out.
\<close>

record 'f Config =
  URI :: string
  Username :: string
  Password :: string
  Database :: string
  MigrationsDir :: string
  MigrationsFS :: "'f option"

definition validateConfig :: "'f Config \<Rightarrow> err option" where
  "validateConfig cfg =
     (if URI cfg = [] then Some (Errorf_ws ErrInvalidConfig ''URI is required'')
      else if Username cfg = [] then Some (Errorf_ws ErrInvalidConfig ''Username is required'')
      else if Password cfg = [] then Some (Errorf_ws ErrInvalidConfig ''Password is required'')
      else if MigrationsDir cfg = [] \<and> MigrationsFS cfg = None then
        Some (Errorf_ws ErrInvalidConfig
                ''either MigrationsDir or MigrationsFS must be provided'')
      else None)"

section \<open>The parser (parser.go)\<close>

definition upMarker :: string where
  "upMarker = ''-- +neo4go Up''"

definition downMarker :: string where
  "downMarker = ''-- +neo4go Down''"

definition newline :: char where
  "newline = CHR 0x0A"

definition HasPrefix :: "string \<Rightarrow> string \<Rightarrow> bool" where
  "HasPrefix s p = (take (length p) s = p)"

definition HasSuffix :: "string \<Rightarrow> string \<Rightarrow> bool" where
  "HasSuffix s p = (length p \<le> length s \<and> drop (length s - length p) s = p)"

definition isDigit :: "char \<Rightarrow> bool" where
  "isDigit c = (c \<in> set ''0123456789'')"

text \<open>
  \<open>migrationFilePattern.FindStringSubmatch\<close> for the pattern
  \<open>^(\d+)_(.+)\.cypher$\<close>: the first group is the whole run of leading ASCII digits (the
  byte after it has to be the underscore), the second group is what lies between that
  underscore and the final \<open>.cypher\<close>, at least one byte and none of them a newline
  (the dot of the pattern does not match one). \<open>None\<close> is the nil result.
\<close>

definition FindStringSubmatch :: "string \<Rightarrow> (string \<times> string) option" where
  "FindStringSubmatch name =
     (let ds = takeWhile isDigit name; rest = dropWhile isDigit name in
      if ds = [] then None
      else case rest of
        [] \<Rightarrow> None
      | c # r \<Rightarrow>
          if c = CHR ''_'' \<and> HasSuffix r ''.cypher'' \<and> length r > 7
             \<and> newline \<notin> set r
          then Some (ds, take (length r - 7) r)
          else None)"

text \<open>
  \<open>strconv.Atoi\<close> on a non-empty string of ASCII digits: the decimal value, or an
  error (\<open>None\<close>) when it does not fit the 64-bit \<open>int\<close>.
\<close>

definition digitVal :: "char \<Rightarrow> nat" where
  "digitVal c = of_char c - 48"

definition Atoi :: "string \<Rightarrow> int option" where
  "Atoi ds =
     (let n = foldl (\<lambda>a c. 10 * a + digitVal c) 0 ds in
      if n > 9223372036854775807 then None else Some (int n))"

text \<open>
  \<open>filepath.Join(dir, name)\<close> for the name of a directory entry (one path element):
  under the directory \<open>.\<close>, the only one NewWithDriver passes, the cleaned path is the
  name itself. Another directory is put in front with a slash and not cleaned further.
\<close>

definition Join :: "string \<Rightarrow> string \<Rightarrow> string" where
  "Join dir name = (if dir = ''.'' \<or> dir = [] then name else dir @ ''/'' @ name)"

text \<open>
  The file system behind \<open>fs.FS\<close>: \<open>fs.ReadDir\<close> gives the entries of a directory,
  \<open>Open\<close> a file whose \<open>io.ReadAll\<close> gives its bytes or fails. The digest
  (SHA-256 printed in hexadecimal) is the library's and is a field too.
\<close>

record DirEntry =
  eName :: string
  IsDir :: bool

record parser =
  fs_ReadDir :: "string \<Rightarrow> err + DirEntry list"
  fs_Open :: "string \<Rightarrow> err + (err + string)"
  sha256_hex :: "string \<Rightarrow> string"

definition calculateChecksum :: "parser \<Rightarrow> string \<Rightarrow> string" where
  "calculateChecksum p content = sha256_hex p content"

text \<open>
  \<open>bufio.Scanner\<close> with the default split function \<open>ScanLines\<close>: the lines between
  newlines, each without one trailing carriage return, and a last unterminated line
  when it is not empty. A line of 65536 bytes or more does not fit the scanner's
  buffer: scanning stops there and \<open>scanner.Err()\<close> is \<open>bufio.ErrTooLong\<close> (the flag).
  The lines before it have been delivered.
\<close>

definition dropCR :: "string \<Rightarrow> string" where
  "dropCR s = (if s \<noteq> [] \<and> last s = CHR 0x0D then butlast s else s)"

fun scan_acc :: "string \<Rightarrow> string \<Rightarrow> string list \<times> bool" where
  "scan_acc cur [] = (if cur = [] then [] else [dropCR (rev cur)], False)"
| "scan_acc cur (c # cs) =
     (if c = newline then
        (case scan_acc [] cs of (ls, tooLong) \<Rightarrow> (dropCR (rev cur) # ls, tooLong))
      else if length cur + 1 \<ge> 65536 then ([], True)
      else scan_acc (c # cur) cs)"

definition scanLines :: "string \<Rightarrow> string list \<times> bool" where
  "scanLines content = scan_acc [] content"

text \<open>
  The loop of splitUpDown over the scanned lines; \<open>currentSection\<close> is the Go string
  it is in the source, \<open>upSQL\<close> and \<open>downSQL\<close> are the two builders.
\<close>

fun splitLoop :: "string list \<Rightarrow> string \<Rightarrow> string \<Rightarrow> string \<Rightarrow> string \<times> string" where
  "splitLoop [] currentSection upSQL downSQL = (upSQL, downSQL)"
| "splitLoop (line # rest) currentSection upSQL downSQL =
     (if HasPrefix line upMarker then splitLoop rest ''up'' upSQL downSQL
      else if HasPrefix line downMarker then splitLoop rest ''down'' upSQL downSQL
      else if currentSection = ''up'' then
        splitLoop rest currentSection (upSQL @ line @ [newline]) downSQL
      else if currentSection = ''down'' then
        splitLoop rest currentSection upSQL (downSQL @ line @ [newline])
      else splitLoop rest currentSection upSQL downSQL)"

definition splitUpDown :: "string \<Rightarrow> err + string \<times> string" where
  "splitUpDown content =
     (case scanLines content of
        (lines, tooLong) \<Rightarrow>
          (case splitLoop lines [] [] [] of
             (upSQL, downSQL) \<Rightarrow>
               if tooLong then Inl (Errorf_w ''failed to scan file'' ErrTooLong)
               else
                 (let upStr = TrimSpace upSQL; downStr = TrimSpace downSQL in
                  if upStr = [] then Inl ErrNoUpStatement
                  else if downStr = [] then Inl ErrNoDownStatement
                  else Inr (upStr, downStr))))"

definition parseMigrationFile :: "parser \<Rightarrow> string \<Rightarrow> int \<Rightarrow> string \<Rightarrow> err + Migration" where
  "parseMigrationFile p filePath version name =
     (case fs_Open p filePath of
        Inl e \<Rightarrow> Inl (Errorf_w ''failed to open file'' e)
      | Inr file \<Rightarrow>
          (case file of
             Inl e \<Rightarrow> Inl (Errorf_w ''failed to read file'' e)
           | Inr content \<Rightarrow>
               (case splitUpDown content of
                  Inl e \<Rightarrow> Inl e
                | Inr (upSQL, downSQL) \<Rightarrow>
                    Inr \<lparr>Version = version, Name = name, UpSQL = upSQL, DownSQL = downSQL,
                         Checksum = calculateChecksum p content\<rparr>)))"

fun parseEntries ::
  "parser \<Rightarrow> string \<Rightarrow> DirEntry list \<Rightarrow> Migration list \<Rightarrow> err + Migration list" where
  "parseEntries p dir [] migs = Inr migs"
| "parseEntries p dir (entry # entries) migs =
     (if IsDir entry then parseEntries p dir entries migs
      else
        (case FindStringSubmatch (eName entry) of
           None \<Rightarrow> parseEntries p dir entries migs
         | Some (digits, name) \<Rightarrow>
             (case Atoi digits of
                None \<Rightarrow> parseEntries p dir entries migs
              | Some version \<Rightarrow>
                  (case parseMigrationFile p (Join dir (eName entry)) version name of
                     Inl e \<Rightarrow> Inl (Errorf_sw ''failed to parse migration'' (eName entry) e)
                   | Inr migration \<Rightarrow> parseEntries p dir entries (migs @ [migration])))))"

text \<open>
  \<open>sort.Slice\<close> with the comparison of versions is the library's sort: it leaves the
  slice ascending by version and promises nothing on the order of equal versions. It
  is \<open>sort_key\<close> here.
\<close>

definition parseMigrations :: "parser \<Rightarrow> string \<Rightarrow> err + Migration list" where
  "parseMigrations p dir =
     (case fs_ReadDir p dir of
        Inl e \<Rightarrow> Inl (Errorf_w ''failed to read migrations directory'' e)
      | Inr entries \<Rightarrow>
          (case parseEntries p dir entries [] of
             Inl e \<Rightarrow> Inl e
           | Inr migs \<Rightarrow>
               if length migs = 0 then Inl ErrNoMigrations
               else Inr (sort_key Version migs)))"

definition newMigrator ::
  "(string \<Rightarrow> 's \<Rightarrow> err option \<times> 's) option \<Rightarrow> 's Storage \<Rightarrow> parser \<Rightarrow> string
     \<Rightarrow> err + 's migrator" where
  "newMigrator drv st p migrationsDir =
     (case parseMigrations p migrationsDir of
        Inl e \<Rightarrow> Inl e
      | Inr migs \<Rightarrow> Inr \<lparr>driver = drv, storage = st, migrations = migs\<rparr>)"

section \<open>The in-memory storage (test\_helpers.go, mockStorage)\<close>

text \<open>
  The mock storage with no hook function installed, as \<open>newMockStorage\<close> leaves it.
  Its Go map is an association list with one entry for a version; the order of the
  list is the order in which the map is iterated, which Go leaves open.
  \<open>time.Now()\<close> reads the field \<open>now\<close>.
\<close>

record mockStorage =
  appliedMigrations :: "(int \<times> MigrationRecord) list"
  now :: nat

definition mock_Init :: "mockStorage \<Rightarrow> err option \<times> mockStorage" where
  "mock_Init s = (None, s)"

definition mock_GetAppliedMigrations ::
  "mockStorage \<Rightarrow> (err + MigrationRecord list) \<times> mockStorage" where
  "mock_GetAppliedMigrations s = (Inr (map snd (appliedMigrations s)), s)"

definition mock_RecordMigration :: "Migration \<Rightarrow> mockStorage \<Rightarrow> err option \<times> mockStorage" where
  "mock_RecordMigration mg s =
     (None,
      s\<lparr>appliedMigrations :=
          filter (\<lambda>kv. fst kv \<noteq> Version mg) (appliedMigrations s)
          @ [(Version mg,
              \<lparr>rVersion = Version mg, rName = Name mg, rAppliedAt = now s,
               rChecksum = Checksum mg\<rparr>)]\<rparr>)"

definition mock_RemoveMigration :: "int \<Rightarrow> mockStorage \<Rightarrow> err option \<times> mockStorage" where
  "mock_RemoveMigration version s =
     (None, s\<lparr>appliedMigrations := filter (\<lambda>kv. fst kv \<noteq> version) (appliedMigrations s)\<rparr>)"

definition mock_GetCurrentVersion :: "mockStorage \<Rightarrow> (err + int) \<times> mockStorage" where
  "mock_GetCurrentVersion s =
     (Inr (foldl (\<lambda>maxVersion version. if version > maxVersion then version else maxVersion)
             0 (map fst (appliedMigrations s))), s)"

definition mock :: "mockStorage Storage" where
  "mock = \<lparr>Init = mock_Init, GetAppliedMigrations = mock_GetAppliedMigrations,
           RecordMigration = mock_RecordMigration, RemoveMigration = mock_RemoveMigration,
           GetCurrentVersion = mock_GetCurrentVersion\<rparr>"

text \<open>The versions the in-memory storage holds a record for.\<close>

definition stored :: "mockStorage \<Rightarrow> int set" where
  "stored s = fst ` set (appliedMigrations s)"

section \<open>Fixtures and descriptions used by the statements\<close>

text \<open>The three migrations of the table tests in migrator\_test.go.\<close>

definition mig1 :: Migration where
  "mig1 = \<lparr>Version = 1, Name = ''initial'', UpSQL = ''CREATE CONSTRAINT c1;'',
            DownSQL = ''DROP CONSTRAINT c1;'', Checksum = ''abc''\<rparr>"

definition mig2 :: Migration where
  "mig2 = \<lparr>Version = 2, Name = ''indexes'', UpSQL = ''CREATE INDEX i1;'',
            DownSQL = ''DROP INDEX i1;'', Checksum = ''def''\<rparr>"

definition mig3 :: Migration where
  "mig3 = \<lparr>Version = 3, Name = ''more'', UpSQL = ''CREATE INDEX i2;'',
            DownSQL = ''DROP INDEX i2;'', Checksum = ''ghi''\<rparr>"

text \<open>The record the tests store for an applied version.\<close>

definition testRecord :: "int \<Rightarrow> MigrationRecord" where
  "testRecord v = \<lparr>rVersion = v, rName = ''test'', rAppliedAt = 7, rChecksum = ''test''\<rparr>"

text \<open>A migrator with the nil driver over the in-memory storage, as the tests build it.\<close>

definition testMigrator :: "Migration list \<Rightarrow> mockStorage migrator" where
  "testMigrator ms = \<lparr>driver = None, storage = mock, migrations = ms\<rparr>"

definition testWorld :: "int list \<Rightarrow> mockStorage world" where
  "testWorld vs =
     \<lparr>store = \<lparr>appliedMigrations = map (\<lambda>v. (v, testRecord v)) vs, now = 9\<rparr>, trace = []\<rparr>"

text \<open>The row of Status for one migration and the warnings of one pass, by the map.\<close>

definition statusRow :: "(int \<rightharpoonup> MigrationRecord) \<Rightarrow> Migration \<Rightarrow> MigrationStatus" where
  "statusRow am mg =
     \<lparr>sVersion = Version mg, sName = Name mg, Applied = (am (Version mg) \<noteq> None),
      sAppliedAt = map_option rAppliedAt (am (Version mg)), sChecksum = Checksum mg\<rparr>"

definition statusWarnings :: "(int \<rightharpoonup> MigrationRecord) \<Rightarrow> Migration list \<Rightarrow> call list" where
  "statusWarnings am ms =
     concat (map (\<lambda>mg. case am (Version mg) of
                     None \<Rightarrow> []
                   | Some r \<Rightarrow> if rChecksum r \<noteq> Checksum mg
                       then [CLog Warn ''checksum mismatch'' (VersionName (Version mg) (Name mg))]
                       else []) ms)"

text \<open>
  Two conditions on the world of the in-memory storage. Its map is well formed when
  every key is the version of the record stored under it, which is how RecordMigration
  writes it. A driver keeps the records when no statement it runs changes that map: the
  scripts act on the database, not on the storage's bookkeeping.
\<close>

definition wf_mock :: "mockStorage \<Rightarrow> bool" where
  "wf_mock s = list_all (\<lambda>kv. rVersion (snd kv) = fst kv) (appliedMigrations s)"

definition keeps_records :: "mockStorage migrator \<Rightarrow> bool" where
  "keeps_records M =
     (case driver M of
        None \<Rightarrow> True
      | Some run \<Rightarrow> \<forall>q s. appliedMigrations (snd (run q s)) = appliedMigrations s)"

text \<open>
  A driver whose transaction fails on one given statement and succeeds on every other,
  and a migration whose forward script is that statement.
\<close>

definition failingDriver :: "string \<Rightarrow> (string \<Rightarrow> mockStorage \<Rightarrow> err option \<times> mockStorage) option" where
  "failingDriver bad =
     Some (\<lambda>q s. (if q = bad then Some (External ''statement failed'') else None, s))"

definition migBroken :: "int \<Rightarrow> Migration" where
  "migBroken v = \<lparr>Version = v, Name = ''broken'', UpSQL = ''FAIL;'',
                  DownSQL = ''DROP INDEX b;'', Checksum = ''xyz''\<rparr>"





section \<open>Basic facts\<close>

lemma trace_emit: "trace (emit c w) = trace w @ [c]"
  by (simp add: emit_def)

lemma store_emit: "store (emit c w) = store w"
  by (simp add: emit_def)

lemma trace_logger: "trace (logger l m a w) = trace w @ [CLog l m a]"
  by (simp add: logger_def emit_def)

lemma store_logger: "store (logger l m a w) = store w"
  by (simp add: logger_def emit_def)

lemma appliedMap_snoc:
  "appliedMap (xs @ [x]) v = (if rVersion x = v then Some x else appliedMap xs v)"
  by (simp add: appliedMap_def)

lemma appliedMap_find:
  "appliedMap applied v = find (\<lambda>r. rVersion r = v) (rev applied)"
proof (induction applied rule: rev_induct)
  case Nil
  show ?case by (simp add: appliedMap_def)
next
  case (snoc x xs)
  then show ?case by (simp add: appliedMap_snoc)
qed

lemma appliedVersions_snoc:
  "appliedVersions (xs @ [x]) v = (rVersion x = v \<or> appliedVersions xs v)"
  by (auto simp add: appliedVersions_def)

lemma appliedVersions_iff: "appliedVersions applied v = (v \<in> rVersion ` set applied)"
proof (induction applied rule: rev_induct)
  case Nil
  show ?case by (simp add: appliedVersions_def)
next
  case (snoc x xs)
  then show ?case by (auto simp add: appliedVersions_snoc)
qed

lemma find_version_None:
  "(find (\<lambda>r. rVersion r = v) xs = None) = (v \<notin> rVersion ` set xs)"
  by (induction xs) auto

section \<open>Negative targets (UpTo, DownTo)\<close>

text \<open>
  C2, as the code has it. Both operations call \<open>Storage.Init\<close> before they look at the
  target. For a negative target that is the only call they make: when Init fails its
  error is returned, otherwise the result is \<open>ErrInvalidVersion\<close>; the store is the one
  Init left, and nothing else is added to the trace (no other storage call, no script,
  no log line).
\<close>

theorem negative_target_rejected:
  assumes "targetVersion < 0" and "Init (storage M) (store w) = (r, s)"
  shows "UpTo M targetVersion w =
           (case r of Some e \<Rightarrow> Some e | None \<Rightarrow> Some ErrInvalidVersion,
            \<lparr>store = s, trace = trace w @ [CInit]\<rparr>)
       \<and> DownTo M targetVersion w =
           (case r of Some e \<Rightarrow> Some e | None \<Rightarrow> Some ErrInvalidVersion,
            \<lparr>store = s, trace = trace w @ [CInit]\<rparr>)"
  using assms
  by (cases r) (simp_all add: UpTo_def DownTo_def storage_Init_def emit_def)

theorem negative_target_rejected_witness:
  "UpTo (testMigrator [mig1]) (- 1) (testWorld [1])
     = (Some ErrInvalidVersion, \<lparr>store = store (testWorld [1]), trace = [CInit]\<rparr>)
   \<and> DownTo (testMigrator [mig1]) (- 1) (testWorld [1])
     = (Some ErrInvalidVersion, \<lparr>store = store (testWorld [1]), trace = [CInit]\<rparr>)"
  using negative_target_rejected [of "- 1" "testMigrator [mig1]" "testWorld [1]" None
      "store (testWorld [1])"]
  by (simp add: testMigrator_def testWorld_def mock_def mock_Init_def)

text \<open>
  C2 as the claim is worded fails: with the target \<open>-1\<close> a storage call is made
  (Init), and when that call fails the error is Init's, not \<open>ErrInvalidVersion\<close>.
\<close>

theorem negative_target_counterexample:
  "storage_calls (trace (snd (UpTo (testMigrator [mig1]) (- 1) (testWorld [1])))) = [CInit]
   \<and> fst (DownTo \<lparr>driver = None,
                  storage = mock\<lparr>Init := \<lambda>s. (Some (External ''init failed''), s)\<rparr>,
                  migrations = [mig1]\<rparr> (- 1) (testWorld [1]))
       = Some (External ''init failed'')"
  by (simp add: UpTo_def DownTo_def storage_Init_def emit_def mock_def mock_Init_def
      storage_calls_def testMigrator_def testWorld_def)

section \<open>Configuration validation\<close>

lemma validateConfig_missing:
  "URI cfg = [] \<or> Username cfg = [] \<or> Password cfg = []
     \<or> (MigrationsDir cfg = [] \<and> MigrationsFS cfg = None)
   \<Longrightarrow> \<exists>e. validateConfig cfg = Some e \<and> errors_Is e ErrInvalidConfig"
  by (auto simp add: validateConfig_def)

text \<open>
  C9: a configuration that names both a migrations directory and an embedded file
  system passes the validation, although the two are documented as mutually
  exclusive.
\<close>

theorem validateConfig_accepts_both_sources:
  "validateConfig \<lparr>URI = ''bolt://localhost:7687'', Username = ''neo4j'',
      Password = ''secret'', Database = [], MigrationsDir = ''./migrations'',
      MigrationsFS = Some ()\<rparr> = None"
  by (simp add: validateConfig_def)

section \<open>Status\<close>

lemma Status_loop_eq:
  "Status_loop am ms acc w =
     (acc @ map (statusRow am) ms, w\<lparr>trace := trace w @ statusWarnings am ms\<rparr>)"
proof (induction ms arbitrary: acc w)
  case Nil
  show ?case by (simp add: statusWarnings_def)
next
  case (Cons mg ms)
  show ?case
  proof (cases "am (Version mg)")
    case None
    then show ?thesis by (simp add: Cons.IH statusRow_def statusWarnings_def)
  next
    case (Some r)
    then show ?thesis
      by (simp add: Cons.IH statusRow_def statusWarnings_def logger_def emit_def)
  qed
qed

text \<open>
  C8. When Init and GetAppliedMigrations succeed, Status returns no error and one row
  for each declared migration, in the declared order: the row carries the declared
  version, name and checksum, is marked applied exactly when a stored record has the
  version, and then carries that record's timestamp (the last such record of the
  slice, should the storage return several). The only thing a differing checksum
  causes is one warning line for that migration; the store is the one the two storage
  calls left.
\<close>

theorem Status_rows:
  assumes "Init (storage M) (store w) = (None, s1)"
    and "GetAppliedMigrations (storage M) s1 = (Inr applied, s2)"
  shows "Status M w =
     (Inr (map (\<lambda>mg. \<lparr>sVersion = Version mg, sName = Name mg,
                      Applied = (Version mg \<in> rVersion ` set applied),
                      sAppliedAt = map_option rAppliedAt
                                     (find (\<lambda>r. rVersion r = Version mg) (rev applied)),
                      sChecksum = Checksum mg\<rparr>) (migrations M)),
      \<lparr>store = s2,
       trace = trace w @ [CInit, CGetApplied]
         @ map (\<lambda>mg. CLog Warn ''checksum mismatch'' (VersionName (Version mg) (Name mg)))
             (filter (\<lambda>mg. \<exists>r. find (\<lambda>r. rVersion r = Version mg) (rev applied) = Some r
                              \<and> rChecksum r \<noteq> Checksum mg) (migrations M))\<rparr>)"
proof -
  have rows: "map (statusRow (appliedMap applied)) ms =
        map (\<lambda>mg. \<lparr>sVersion = Version mg, sName = Name mg,
                      Applied = (Version mg \<in> rVersion ` set applied),
                      sAppliedAt = map_option rAppliedAt
                                     (find (\<lambda>r. rVersion r = Version mg) (rev applied)),
                      sChecksum = Checksum mg\<rparr>) ms" for ms
    by (simp add: statusRow_def appliedMap_find find_version_None)
  have warns: "statusWarnings (appliedMap applied) ms =
        map (\<lambda>mg. CLog Warn ''checksum mismatch'' (VersionName (Version mg) (Name mg)))
             (filter (\<lambda>mg. \<exists>r. find (\<lambda>r. rVersion r = Version mg) (rev applied) = Some r
                              \<and> rChecksum r \<noteq> Checksum mg) ms)" for ms
    by (induction ms) (auto simp add: statusWarnings_def appliedMap_find split: option.splits)
  show ?thesis
    using assms
    by (simp add: Status_def storage_Init_def storage_GetAppliedMigrations_def emit_def
        Status_loop_eq rows warns)
qed

theorem Status_rows_witness:
  "Status (testMigrator [mig1, mig2]) (testWorld [1]) =
     (Inr [\<lparr>sVersion = 1, sName = ''initial'', Applied = True, sAppliedAt = Some 7,
            sChecksum = ''abc''\<rparr>,
           \<lparr>sVersion = 2, sName = ''indexes'', Applied = False, sAppliedAt = None,
            sChecksum = ''def''\<rparr>],
      \<lparr>store = store (testWorld [1]),
       trace = [CInit, CGetApplied,
                CLog Warn ''checksum mismatch'' (VersionName 1 ''initial'')]\<rparr>)"
  using Status_rows [of "testMigrator [mig1, mig2]" "testWorld [1]" "store (testWorld [1])"
      "[testRecord 1]" "store (testWorld [1])"]
  by (simp add: testMigrator_def testWorld_def mock_def mock_Init_def
      mock_GetAppliedMigrations_def mig1_def mig2_def testRecord_def)

lemma executed_append: "executed (a @ b) = executed a @ executed b" by (simp add: executed_def)
lemma recorded_append: "recorded (a @ b) = recorded a @ recorded b" by (simp add: recorded_def)
lemma removed_append: "removed (a @ b) = removed a @ removed b" by (simp add: removed_def)
lemma ran_append: "ran (a @ b) = ran a @ ran b" by (simp add: ran_def)
lemma storage_calls_append: "storage_calls (a @ b) = storage_calls a @ storage_calls b"
  by (simp add: storage_calls_def)

lemma proj_Nil: "executed [] = []" "recorded [] = []" "removed [] = []" "ran [] = []"
  by (simp_all add: executed_def recorded_def removed_def ran_def)

lemma proj_Cons:
  "executed (c # tr) = (case c of CExecute q \<Rightarrow> [q] | _ \<Rightarrow> []) @ executed tr"
  "recorded (c # tr) = (case c of CRecord mg \<Rightarrow> [mg] | _ \<Rightarrow> []) @ recorded tr"
  "removed (c # tr) = (case c of CRemove v \<Rightarrow> [v] | _ \<Rightarrow> []) @ removed tr"
  "ran (c # tr) = (case c of CRun q \<Rightarrow> [q] | _ \<Rightarrow> []) @ ran tr"
  by (simp_all add: executed_def recorded_def removed_def ran_def)

lemmas proj_simps = executed_append recorded_append removed_append ran_append proj_Nil proj_Cons
  trace_emit store_emit trace_logger store_logger

lemma runStatements_proj:
  "runStatements run ss w = (r, w') \<Longrightarrow>
     executed (trace w') = executed (trace w) \<and> recorded (trace w') = recorded (trace w)
     \<and> removed (trace w') = removed (trace w)"
proof (induction ss arbitrary: w)
  case Nil
  then show ?case by simp
next
  case (Cons stmt rest)
  show ?case
  proof (cases "TrimSpace stmt = []")
    case True
    with Cons show ?thesis by simp
  next
    case False
    let ?w1 = "logger Debug ''executing statement'' (Statement (TrimSpace stmt)) w"
    obtain e st where run: "run (TrimSpace stmt) (store ?w1) = (e, st)" by (cases "run (TrimSpace stmt) (store ?w1)")
    show ?thesis
    proof (cases e)
      case None
      with Cons.prems False run
      have "runStatements run rest (emit (CRun (TrimSpace stmt)) (?w1\<lparr>store := st\<rparr>)) = (r, w')"
        by (simp add: Let_def)
      from Cons.IH [OF this] show ?thesis by (simp add: proj_simps)
    next
      case (Some err)
      with Cons.prems False run
      have "w' = emit (CRun (TrimSpace stmt)) (?w1\<lparr>store := st\<rparr>)"
        by (simp add: Let_def)
      then show ?thesis by (simp add: proj_simps)
    qed
  qed
qed

lemma executeMigration_proj:
  assumes "executeMigration M sql w = (r, w')"
  shows "executed (trace w') = executed (trace w) @ [sql] \<and> recorded (trace w') = recorded (trace w)
     \<and> removed (trace w') = removed (trace w)"
proof (cases "driver M")
  case None
  with assms show ?thesis by (auto simp add: executeMigration_def Let_def proj_simps)
next
  case (Some run)
  with assms have "runStatements run (splitStatements sql) (emit (CExecute sql) w) = (r, w')"
    by (simp add: executeMigration_def Let_def)
  from runStatements_proj [OF this] show ?thesis by (simp add: proj_simps)
qed

lemma executeMigration_nil:
  "driver M = None \<Longrightarrow> executeMigration M sql w = (None, emit (CExecute sql) w)"
  by (simp add: executeMigration_def Let_def)

lemma storage_RecordMigration_proj:
  assumes "storage_RecordMigration M mg w = (r, w')"
  shows "executed (trace w') = executed (trace w) \<and> recorded (trace w') = recorded (trace w) @ [mg]
     \<and> removed (trace w') = removed (trace w) \<and> ran (trace w') = ran (trace w)"
  using assms by (auto simp add: storage_RecordMigration_def proj_simps split: prod.splits)

lemma Up_loop_success:
  "Up_loop M av ms w = (None, w') \<Longrightarrow>
     recorded (trace w') = recorded (trace w) @ filter (\<lambda>mg. \<not> av (Version mg)) ms
   \<and> executed (trace w') = executed (trace w) @ map UpSQL (filter (\<lambda>mg. \<not> av (Version mg)) ms)"
proof (induction ms arbitrary: w)
  case Nil
  then show ?case by simp
next
  case (Cons mg rest)
  show ?case
  proof (cases "av (Version mg)")
    case True
    with Cons.prems have "Up_loop M av rest (logger Debug ''skipping already applied migration''
             (VersionName (Version mg) (Name mg)) w) = (None, w')" by simp
    from Cons.IH [OF this] True show ?thesis by (simp add: proj_simps)
  next
    case False
    let ?w1 = "logger Info ''applying migration'' (VersionName (Version mg) (Name mg)) w"
    obtain r2 w2 where ex: "executeMigration M (UpSQL mg) ?w1 = (r2, w2)"
      by (cases "executeMigration M (UpSQL mg) ?w1")
    obtain r3 w3 where rc: "storage_RecordMigration M mg w2 = (r3, w3)"
      by (cases "storage_RecordMigration M mg w2")
    from Cons.prems False ex have r2: "r2 = None" by (cases r2) simp_all
    from Cons.prems False ex rc r2 have r3: "r3 = None" by (cases r3) simp_all
    from Cons.prems False ex rc r2 r3
    have "Up_loop M av rest (logger Info ''successfully applied migration''
                       (VersionName (Version mg) (Name mg)) w3) = (None, w')" by simp
    from Cons.IH [OF this] executeMigration_proj [OF ex] storage_RecordMigration_proj [OF rc] False
    show ?thesis by (simp add: proj_simps)
  qed
qed





lemmas run_defs = testMigrator_def testWorld_def mock_def mock_Init_def
      mock_GetAppliedMigrations_def mock_RecordMigration_def mock_RemoveMigration_def
      mig1_def mig2_def mig3_def testRecord_def
      storage_Init_def storage_GetAppliedMigrations_def
      storage_RecordMigration_def storage_RemoveMigration_def executeMigration_def
      emit_def logger_def appliedVersions_def

section \<open>UpTo\<close>



section \<open>DownTo\<close>












section \<open>The nil driver\<close>

lemma Up_loop_nil_driver:
  assumes "driver M = None" and "\<forall>mg s. fst (RecordMigration (storage M) mg s) = None"
  shows "fst (Up_loop M av ms w) = None \<and> ran (trace (snd (Up_loop M av ms w))) = ran (trace w)"
proof (induction ms arbitrary: w)
  case Nil
  show ?case by simp
next
  case (Cons mg rest)
  show ?case
  proof (cases "av (Version mg)")
    case True
    then show ?thesis using Cons.IH by (simp add: proj_simps)
  next
    case False
    let ?w2 = "emit (CExecute (UpSQL mg))
                 (logger Info ''applying migration'' (VersionName (Version mg) (Name mg)) w)"
    obtain r3 s3 where rc: "RecordMigration (storage M) mg (store ?w2) = (r3, s3)"
      by (cases "RecordMigration (storage M) mg (store ?w2)")
    with assms(2) have "r3 = None" by (metis fst_conv)
    with False rc assms(1) show ?thesis
      using Cons.IH [of "logger Info ''successfully applied migration''
                       (VersionName (Version mg) (Name mg))
                       (emit (CRecord mg) (?w2\<lparr>store := s3\<rparr>))"]
      by (simp add: executeMigration_def storage_RecordMigration_def proj_simps)
  qed
qed

text \<open>
  C10. With the nil driver handle, executeMigration returns success at once: the store
  is untouched and no statement is run. Up on a storage that reports no applied
  migration (and whose Init and RecordMigration succeed) then returns no error, has
  recorded every declared migration in declared order, and has run no statement.
\<close>

theorem Up_nil_driver:
  assumes "driver M = None"
    and "Init (storage M) (store w) = (None, s1)"
    and "GetAppliedMigrations (storage M) s1 = (Inr [], s2)"
    and "\<forall>mg s. fst (RecordMigration (storage M) mg s) = None"
  shows "(\<forall>sql w0. executeMigration M sql w0 = (None, emit (CExecute sql) w0))
       \<and> fst (Up M w) = None
       \<and> recorded (trace (snd (Up M w))) = recorded (trace w) @ migrations M
       \<and> ran (trace (snd (Up M w))) = ran (trace w)"
proof -
  let ?w2 = "emit CGetApplied (emit CInit (w\<lparr>store := s1\<rparr>)\<lparr>store := s2\<rparr>)"
  let ?av = "appliedVersions []"
  have up: "Up M w = Up_loop M ?av (migrations M) ?w2"
    using assms(2,3)
    by (simp add: Up_def storage_Init_def storage_GetAppliedMigrations_def emit_def)
  note nil = Up_loop_nil_driver [OF assms(1) assms(4), of ?av "migrations M" ?w2]
  then have "Up_loop M ?av (migrations M) ?w2 = (None, snd (Up_loop M ?av (migrations M) ?w2))"
    by (metis prod.collapse)
  from Up_loop_success [OF this]
  have "recorded (trace (snd (Up M w))) = recorded (trace w) @ migrations M"
    by (simp add: up proj_simps appliedVersions_def)
  with nil up assms(1) show ?thesis
    by (simp add: executeMigration_def proj_simps)
qed

theorem Up_nil_driver_witness:
  "fst (Up (testMigrator [mig1, mig2, mig3]) (testWorld [])) = None
   \<and> recorded (trace (snd (Up (testMigrator [mig1, mig2, mig3]) (testWorld []))))
       = [mig1, mig2, mig3]
   \<and> ran (trace (snd (Up (testMigrator [mig1, mig2, mig3]) (testWorld [])))) = []
   \<and> map fst (appliedMigrations (store (snd (Up (testMigrator [mig1, mig2, mig3])
                                                 (testWorld []))))) = [1, 2, 3]"
  using Up_nil_driver [of "testMigrator [mig1, mig2, mig3]" "testWorld []"
      "store (testWorld [])" "store (testWorld [])"]
  by (simp add: run_defs Up_def proj_simps)

section \<open>The parser\<close>








section \<open>Up on the in-memory storage\<close>

lemma wf_mock_versions:
  "wf_mock s \<Longrightarrow> rVersion ` set (map snd (appliedMigrations s)) = stored s"
  by (force simp add: wf_mock_def stored_def list_all_iff)

lemma runStatements_keeps:
  assumes "\<forall>q s. appliedMigrations (snd (run q s)) = appliedMigrations s"
  shows "appliedMigrations (store (snd (runStatements run ss w))) = appliedMigrations (store w)"
proof (induction ss arbitrary: w)
  case Nil
  show ?case by simp
next
  case (Cons stmt rest)
  show ?case
  proof (cases "TrimSpace stmt = []")
    case True
    with Cons show ?thesis by simp
  next
    case False
    let ?w1 = "logger Debug ''executing statement'' (Statement (TrimSpace stmt)) w"
    obtain e st where run: "run (TrimSpace stmt) (store ?w1) = (e, st)"
      by (cases "run (TrimSpace stmt) (store ?w1)")
    with assms have st: "appliedMigrations st = appliedMigrations (store w)"
      by (metis snd_conv store_logger)
    show ?thesis
    proof (cases e)
      case None
      with False run st show ?thesis
        using Cons.IH [of "emit (CRun (TrimSpace stmt)) (?w1\<lparr>store := st\<rparr>)"]
        by (simp add: Let_def store_emit)
    next
      case (Some err)
      with False run st show ?thesis by (simp add: Let_def store_emit)
    qed
  qed
qed

lemma executeMigration_keeps:
  assumes "keeps_records M" and "executeMigration M sql w = (r, w')"
  shows "appliedMigrations (store w') = appliedMigrations (store w)"
proof (cases "driver M")
  case None
  with assms(2) show ?thesis by (auto simp add: executeMigration_def Let_def store_emit)
next
  case (Some run)
  with assms(1) have k: "\<forall>q s. appliedMigrations (snd (run q s)) = appliedMigrations s"
    by (simp add: keeps_records_def)
  from Some assms(2)
  have "runStatements run (splitStatements sql) (emit (CExecute sql) w) = (r, w')"
    by (simp add: executeMigration_def Let_def)
  with runStatements_keeps [OF k, of "splitStatements sql" "emit (CExecute sql) w"]
  show ?thesis by (simp add: store_emit)
qed

lemma mock_record_effect:
  assumes "storage M = mock" and "storage_RecordMigration M mg w = (r, w')"
  shows "r = None \<and> stored (store w') = insert (Version mg) (stored (store w))
       \<and> (wf_mock (store w) \<longrightarrow> wf_mock (store w'))"
  using assms
  by (auto simp add: storage_RecordMigration_def mock_def mock_RecordMigration_def stored_def
      wf_mock_def list_all_iff store_emit image_iff)

lemma Up_loop_mock:
  assumes "storage M = mock" and "keeps_records M"
  shows "wf_mock (store w) \<Longrightarrow> Up_loop M av ms w = (r, w') \<Longrightarrow>
     wf_mock (store w')
     \<and> (\<exists>new. recorded (trace w') = recorded (trace w) @ new
              \<and> stored (store w') = stored (store w) \<union> Version ` set new)"
proof (induction ms arbitrary: w)
  case Nil
  then show ?case by simp
next
  case (Cons mg rest)
  show ?case
  proof (cases "av (Version mg)")
    case True
    let ?w1 = "logger Debug ''skipping already applied migration''
             (VersionName (Version mg) (Name mg)) w"
    from True Cons.prems have "Up_loop M av rest ?w1 = (r, w')" by simp
    from Cons.IH [OF _ this] Cons.prems(1) show ?thesis by (simp add: proj_simps)
  next
    case False
    let ?w1 = "logger Info ''applying migration'' (VersionName (Version mg) (Name mg)) w"
    obtain r2 w2 where ex: "executeMigration M (UpSQL mg) ?w1 = (r2, w2)"
      by (cases "executeMigration M (UpSQL mg) ?w1")
    from executeMigration_keeps [OF assms(2) ex]
    have k2: "appliedMigrations (store w2) = appliedMigrations (store w)"
      by (simp add: store_logger)
    then have s2: "stored (store w2) = stored (store w)" and wf2: "wf_mock (store w2)"
      using Cons.prems(1) by (simp_all add: stored_def wf_mock_def)
    note p2 = executeMigration_proj [OF ex]
    show ?thesis
    proof (cases r2)
      case (Some e)
      with False ex Cons.prems(2) have "w' = w2" by auto
      with p2 s2 wf2 show ?thesis by (simp add: proj_simps)
    next
      case None
      obtain r3 w3 where rc: "storage_RecordMigration M mg w2 = (r3, w3)"
        by (cases "storage_RecordMigration M mg w2")
      note m3 = mock_record_effect [OF assms(1) rc]
      note p3 = storage_RecordMigration_proj [OF rc]
      let ?w4 = "logger Info ''successfully applied migration''
                       (VersionName (Version mg) (Name mg)) w3"
      from False ex None rc m3 Cons.prems(2) have "Up_loop M av rest ?w4 = (r, w')" by simp
      moreover from m3 wf2 have "wf_mock (store ?w4)" by (simp add: store_logger)
      ultimately obtain new where wf': "wf_mock (store w')"
        and rec: "recorded (trace w') = recorded (trace ?w4) @ new"
        and st: "stored (store w') = stored (store ?w4) \<union> Version ` set new"
        using Cons.IH by blast
      from rec p2 p3 have "recorded (trace w') = recorded (trace w) @ (mg # new)"
        by (simp add: proj_simps)
      moreover from st m3 s2
      have "stored (store w') = stored (store w) \<union> Version ` set (mg # new)"
        by (simp add: store_logger)
      ultimately show ?thesis using wf' by blast
    qed
  qed
qed

lemma Up_loop_all_applied:
  "\<forall>mg\<in>set ms. av (Version mg) \<Longrightarrow>
     fst (Up_loop M av ms w) = None \<and> store (snd (Up_loop M av ms w)) = store w
     \<and> executed (trace (snd (Up_loop M av ms w))) = executed (trace w)
     \<and> recorded (trace (snd (Up_loop M av ms w))) = recorded (trace w)
     \<and> ran (trace (snd (Up_loop M av ms w))) = ran (trace w)"
proof (induction ms arbitrary: w)
  case Nil
  show ?case by simp
next
  case (Cons mg rest)
  then show ?case by (simp add: proj_simps)
qed

lemma Up_on_mock:
  assumes "storage M = mock" and "wf_mock (store w)"
  shows "Up M w = Up_loop M (\<lambda>v. v \<in> stored (store w)) (migrations M)
                    (emit CGetApplied (emit CInit w))"
proof -
  have "appliedVersions (map snd (appliedMigrations (store w))) = (\<lambda>v. v \<in> stored (store w))"
    using wf_mock_versions [OF assms(2)] by (auto simp add: appliedVersions_iff fun_eq_iff)
  with assms(1) show ?thesis
    by (simp add: Up_def storage_Init_def storage_GetAppliedMigrations_def mock_def
        mock_Init_def mock_GetAppliedMigrations_def emit_def)
qed

lemmas mock_run_defs = run_defs Up_def wf_mock_def keeps_records_def failingDriver_def
  migBroken_def splitStatements_def TrimSpace_def isSpace_def proj_simps Let_def

text \<open>
  C3. On the in-memory storage, with a driver that keeps the records: when a first Up
  returns no error, a second Up started in the world the first one left returns no error
  either, hands no script over for execution, runs no statement, records nothing and
  leaves the store as it was; every declared version is found applied and skipped.
\<close>

theorem Up_idempotent:
  assumes "storage M = mock" and "keeps_records M" and "wf_mock (store w)"
    and "Up M w = (None, w1)"
  shows "fst (Up M w1) = None
       \<and> executed (trace (snd (Up M w1))) = executed (trace w1)
       \<and> ran (trace (snd (Up M w1))) = ran (trace w1)
       \<and> recorded (trace (snd (Up M w1))) = recorded (trace w1)
       \<and> store (snd (Up M w1)) = store w1"
proof -
  let ?av = "\<lambda>v. v \<in> stored (store w)"
  let ?w0 = "emit CGetApplied (emit CInit w)"
  from assms(4) have loop: "Up_loop M ?av (migrations M) ?w0 = (None, w1)"
    by (simp add: Up_on_mock [OF assms(1,3)])
  have wf0: "wf_mock (store ?w0)" using assms(3) by (simp add: store_emit)
  from Up_loop_mock [OF assms(1,2) wf0 loop]
  obtain new where wf1: "wf_mock (store w1)"
    and rec: "recorded (trace w1) = recorded (trace ?w0) @ new"
    and st: "stored (store w1) = stored (store ?w0) \<union> Version ` set new"
    by blast
  from Up_loop_success [OF loop] rec
  have "new = filter (\<lambda>mg. \<not> ?av (Version mg)) (migrations M)" by simp
  with st have "\<forall>mg\<in>set (migrations M). Version mg \<in> stored (store w1)"
    by (auto simp add: store_emit)
  from Up_loop_all_applied [OF this, of M "emit CGetApplied (emit CInit w1)"]
  show ?thesis
    by (simp add: Up_on_mock [OF assms(1) wf1] proj_simps store_emit)
qed

theorem Up_idempotent_witness:
  "Up (testMigrator [mig1, mig2]) (testWorld [1])
     = (None, snd (Up (testMigrator [mig1, mig2]) (testWorld [1])))
   \<and> fst (Up (testMigrator [mig1, mig2]) (snd (Up (testMigrator [mig1, mig2]) (testWorld [1]))))
       = None
   \<and> executed (trace (snd (Up (testMigrator [mig1, mig2])
                             (snd (Up (testMigrator [mig1, mig2]) (testWorld [1]))))))
       = [''CREATE INDEX i1;'']
   \<and> recorded (trace (snd (Up (testMigrator [mig1, mig2])
                             (snd (Up (testMigrator [mig1, mig2]) (testWorld [1]))))))
       = [mig2]"
  using Up_idempotent [of "testMigrator [mig1, mig2]" "testWorld [1]"
      "snd (Up (testMigrator [mig1, mig2]) (testWorld [1]))"]
  by (simp add: mock_run_defs)

section \<open>A failing forward script\<close>







end
